theory Spec2Isabelle
  imports Complex_Main
begin

section \<open>Data model of the Rainbow DQN agent\<close>

text \<open>
  The agent of \<^verbatim>\<open>gym_loop/agents/pytorch_rainbow_dqn.py\<close>. Floating-point tensors are
  modelled by lists of reals: a one-dimensional tensor is a \<open>real list\<close>, a two-dimensional
  one a list of rows. Exceptions of the source are values of \<open>error\<close>.
\<close>

datatype error = NotImplementedError | ZeroDivisionError | IndexError | RuntimeError
  | AttributeError

type_synonym observation = "real list"

text \<open>The keyword parameters read by the agent (\<^verbatim>\<open>get_default_parameters\<close>).\<close>

record config =
  batch_size :: nat
  gamma :: real
  tau :: real
  buffer_beta_max :: real
  buffer_beta_min :: real
  buffer_beta_decay :: real
  prior_eps :: real
  atom_size :: nat
  n_step :: nat
  v_min :: real
  v_max :: real

text \<open>
  A parameter tensor: its values (flattened), its shape, and its gradient if one has been
  computed. A network is its named parameters together with a counter of the noise
  resamplings it has gone through.
\<close>

record param =
  data :: "real list"
  shape :: "nat list"
  grad :: "real list option"

record net =
  named_parameters :: "(string \<times> param) list"
  noise_epoch :: nat

text \<open>
  The injected policy class: what \<^verbatim>\<open>self.Policy(...)\<close> constructs, its forward pass
  \<^verbatim>\<open>dqn(x)["q_values"]\<close> for one observation, and its \<^verbatim>\<open>distribution\<close> method when the
  class has one (one probability vector over the atoms per action).
\<close>

record policy =
  construct :: net
  q_values :: "net \<Rightarrow> observation \<Rightarrow> real list"
  distribution :: "(net \<Rightarrow> observation \<Rightarrow> real list list) option"

text \<open>A sampled batch: the dictionary of arrays returned by the replay buffers.\<close>

record samples =
  obs :: "observation list"
  next_obs :: "observation list"
  acts :: "nat list"
  rews :: "real list"
  done_flags :: "real list"
  weights :: "real list"
  indices :: "nat list"

text \<open>
  The collaborators whose code is outside the agent, as they behave during one call of
  \<^verbatim>\<open>update\<close>: \<^verbatim>\<open>len(self.memory)\<close>, the two sampling methods of the replay buffers,
  the \<^verbatim>\<open>distribution\<close> method of the target network (a \<^verbatim>\<open>CategoricalNet\<close>), and the
  combined effect of \<^verbatim>\<open>zero_grad\<close>, \<^verbatim>\<open>backward\<close>, gradient clipping and the optimizer
  step on the online network.
\<close>

record collab =
  mem_len :: nat
  sample_batch :: "real \<Rightarrow> samples"
  sample_batch_from_idxs :: "nat list \<Rightarrow> samples"
  target_distribution :: "net \<Rightarrow> observation \<Rightarrow> real list list"
  gradient_step :: "net \<Rightarrow> net"

record agent =
  Policy :: policy
  dqn :: net
  dqn_target :: net
  beta :: real
  loss_per_batch :: real
  episode_step :: nat
  priorities :: "nat \<rightharpoonup> real"

section \<open>Tensor helpers\<close>

text \<open>\<^verbatim>\<open>torch.linspace(a, b, n)\<close>; for \<open>n = 1\<close> it is \<open>[a]\<close>.\<close>

definition linspace :: "real \<Rightarrow> real \<Rightarrow> nat \<Rightarrow> real list" where
  "linspace a b n =
     (if n = 1 then [a] else map (\<lambda>i. a + real i * ((b - a) / (real n - 1))) [0..<n])"

text \<open>\<^verbatim>\<open>.long()\<close>: conversion of a float to an integer truncates toward zero.\<close>

definition long :: "real \<Rightarrow> int" where
  "long x = (if 0 \<le> x then \<lfloor>x\<rfloor> else \<lceil>x\<rceil>)"

text \<open>\<^verbatim>\<open>t.clamp(min=lo, max=hi)\<close>.\<close>

definition clamp :: "real \<Rightarrow> real \<Rightarrow> real \<Rightarrow> real" where
  "clamp lo hi x = min (max x lo) hi"

text \<open>\<^verbatim>\<open>argmax\<close> over one row: the index of the first largest entry.\<close>

fun argmax_from :: "nat \<Rightarrow> nat \<Rightarrow> real \<Rightarrow> real list \<Rightarrow> nat" where
  "argmax_from i best bv [] = best"
| "argmax_from i best bv (x # xs) =
     (if bv < x then argmax_from (Suc i) i x xs else argmax_from (Suc i) best bv xs)"

definition argmax :: "real list \<Rightarrow> nat" where
  "argmax xs = (case xs of [] \<Rightarrow> 0 | x # r \<Rightarrow> argmax_from 1 0 x r)"

text \<open>
  \<^verbatim>\<open>t[range(batch_size), idx]\<close> on a tensor of shape (batch, actions, atoms): row \<open>i\<close> of
  the result is \<open>t[i][idx[i]]\<close>. The index arrays must have equal length and stay in range.
\<close>

definition select_rows :: "nat \<Rightarrow> real list list list \<Rightarrow> nat list \<Rightarrow> error + real list list" where
  "select_rows B t idx =
     (if length idx \<noteq> B \<or> length t < B then Inl IndexError
      else if \<exists>i \<in> set [0..<B]. length (t ! i) \<le> idx ! i then Inl IndexError
      else Inr (map (\<lambda>i. t ! i ! (idx ! i)) [0..<B]))"

text \<open>
  \<^verbatim>\<open>buf.index_add_(0, index, source)\<close> on a flat buffer: the entries of \<open>source\<close> are added
  one after the other at the positions named by \<open>index\<close>.
\<close>

fun index_add :: "real list \<Rightarrow> (int \<times> real) list \<Rightarrow> error + real list" where
  "index_add buf [] = Inr buf"
| "index_add buf ((i, v) # ivs) =
     (if 0 \<le> i \<and> i < int (length buf)
      then index_add (buf[nat i := buf ! nat i + v]) ivs
      else Inl IndexError)"

text \<open>Reading a flat buffer of \<open>B * A\<close> entries as \<open>B\<close> rows of \<open>A\<close>.\<close>

definition unflatten :: "nat \<Rightarrow> nat \<Rightarrow> real list \<Rightarrow> real list list" where
  "unflatten B A flat = map (\<lambda>i. take A (drop (i * A) flat)) [0..<B]"

section \<open>The distributional loss\<close>

definition support :: "config \<Rightarrow> real list" where
  "support cfg = linspace (v_min cfg) (v_max cfg) (atom_size cfg)"

definition delta_z :: "config \<Rightarrow> real" where
  "delta_z cfg = (v_max cfg - v_min cfg) / (real (atom_size cfg) - 1)"

text \<open>Lines 179 to 181: the fractional grid positions \<open>b\<close> of one sample.\<close>

definition t_z :: "config \<Rightarrow> real \<Rightarrow> real \<Rightarrow> real \<Rightarrow> real list" where
  "t_z cfg gam reward dn =
     map (\<lambda>z. clamp (v_min cfg) (v_max cfg) (reward + (1 - dn) * gam * z)) (support cfg)"

definition b_row :: "config \<Rightarrow> real \<Rightarrow> real \<Rightarrow> real \<Rightarrow> real list" where
  "b_row cfg gam reward dn = map (\<lambda>t. (t - v_min cfg) / delta_z cfg) (t_z cfg gam reward dn)"

text \<open>Lines 185 to 193: the offset of each sample's row in the flat buffer.\<close>

definition offset :: "config \<Rightarrow> int list" where
  "offset cfg =
     map long (linspace 0 ((real (batch_size cfg) - 1) * real (atom_size cfg)) (batch_size cfg))"

text \<open>
  Lines 179 to 201: the projection of the next-state distribution \<open>next_dist\<close> (one row of
  \<open>atom_size\<close> masses per sample) onto the support. The two \<^verbatim>\<open>index_add_\<close> calls run on
  the flattened tensors; the floor index receives \<open>next_dist * (u - b)\<close>, the ceiling index
  \<open>next_dist * (b - l)\<close>.
\<close>

definition proj_dist :: "config \<Rightarrow> real \<Rightarrow> real list \<Rightarrow> real list \<Rightarrow> real list list
    \<Rightarrow> error + real list list" where
  "proj_dist cfg gam reward dn next_dist =
     (let B = batch_size cfg; A = atom_size cfg in
      if length reward \<noteq> B \<or> length dn \<noteq> B \<or> length next_dist \<noteq> B
         \<or> (\<exists>row \<in> set next_dist. length row \<noteq> A)
      then Inl RuntimeError
      else
        let b = map (\<lambda>i. b_row cfg gam (reward ! i) (dn ! i)) [0..<B];
            l = map (map (\<lambda>x. long (real_of_int \<lfloor>x\<rfloor>))) b;
            u = map (map (\<lambda>x. long (real_of_int \<lceil>x\<rceil>))) b;
            l_idx = concat (map (\<lambda>i. map (\<lambda>j. l ! i ! j + offset cfg ! i) [0..<A]) [0..<B]);
            u_idx = concat (map (\<lambda>i. map (\<lambda>j. u ! i ! j + offset cfg ! i) [0..<A]) [0..<B]);
            l_src = concat (map (\<lambda>i. map (\<lambda>j. next_dist ! i ! j
                       * (real_of_int (u ! i ! j) - b ! i ! j)) [0..<A]) [0..<B]);
            u_src = concat (map (\<lambda>i. map (\<lambda>j. next_dist ! i ! j
                       * (b ! i ! j - real_of_int (l ! i ! j))) [0..<A]) [0..<B])
        in case index_add (replicate (B * A) 0) (zip l_idx l_src) of
             Inl e \<Rightarrow> Inl e
           | Inr buf \<Rightarrow>
               (case index_add buf (zip u_idx u_src) of
                  Inl e \<Rightarrow> Inl e
                | Inr buf' \<Rightarrow> Inr (unflatten B A buf')))"

text \<open>
  \<^verbatim>\<open>_compute_dqn_loss(samples, gamma)\<close>: the double-DQN choice of the next action by the
  online network, the target network's distribution for it, the projection, and the
  cross-entropy against the online distribution of the action taken. The division that
  computes \<open>delta_z\<close> is Python's, and raises when \<open>atom_size = 1\<close>. The logarithm of a
  zero probability is minus infinity in the source; \<open>ln\<close> stands for \<^verbatim>\<open>torch.log\<close> where
  the online probabilities are positive.
\<close>

definition compute_dqn_loss :: "config \<Rightarrow> collab \<Rightarrow> agent \<Rightarrow> samples \<Rightarrow> real option
    \<Rightarrow> error + real list" where
  "compute_dqn_loss cfg co s smp gamma_arg =
     (let gam = (case gamma_arg of None \<Rightarrow> gamma cfg | Some g \<Rightarrow> g);
          B = batch_size cfg
      in if atom_size cfg = 1 then Inl ZeroDivisionError
         else
           let next_action = map (\<lambda>x. argmax (q_values (Policy s) (dqn s) x)) (next_obs smp);
               next_all = map (target_distribution co (dqn_target s)) (next_obs smp)
           in case select_rows B next_all next_action of
                Inl e \<Rightarrow> Inl e
              | Inr next_dist \<Rightarrow>
                  (case proj_dist cfg gam (rews smp) (done_flags smp) next_dist of
                     Inl e \<Rightarrow> Inl e
                   | Inr pd \<Rightarrow>
                       (case distribution (Policy s) of
                          None \<Rightarrow> Inl AttributeError
                        | Some dist_fn \<Rightarrow>
                            (case select_rows B (map (dist_fn (dqn s)) (obs smp)) (acts smp) of
                               Inl e \<Rightarrow> Inl e
                             | Inr picked \<Rightarrow>
                                 if \<exists>row \<in> set picked. length row \<noteq> atom_size cfg
                                 then Inl RuntimeError
                                 else Inr (map2 (\<lambda>p d. - sum_list (map2 (\<lambda>x y. x * ln y) p d))
                                             pd picked)))))"

section \<open>The gradient step\<close>

text \<open>
  \<^verbatim>\<open>elementwise_loss * weights\<close>: the loss has shape (B), the weights were reshaped to
  (B, 1), so the product is broadcast to shape (B, B): entry \<open>(i, j)\<close> is
  \<open>loss[j] * weights[i][0]\<close>.
\<close>

definition reshape_column :: "real list \<Rightarrow> real list list" where
  "reshape_column ws = map (\<lambda>w. [w]) ws"

definition broadcast_mul :: "real list \<Rightarrow> real list list \<Rightarrow> real list list" where
  "broadcast_mul v col = map (\<lambda>row. map (\<lambda>x. x * hd row) v) col"

text \<open>\<^verbatim>\<open>torch.mean\<close> over all entries of a tensor.\<close>

definition mean :: "real list \<Rightarrow> real" where
  "mean xs = sum_list xs / real (length xs)"

definition mean2 :: "real list list \<Rightarrow> real" where
  "mean2 m = mean (concat m)"

text \<open>
  Modelled from the spec: \<^verbatim>\<open>PrioritizedReplayBuffer.update_priorities\<close> is not part of the
  agent's file; it overwrites the stored priorities at the given indices.
\<close>

definition update_priorities :: "nat list \<Rightarrow> real list \<Rightarrow> (nat \<rightharpoonup> real) \<Rightarrow> (nat \<rightharpoonup> real)" where
  "update_priorities idx ps m = fold (\<lambda>(i, p) m. m(i \<mapsto> p)) (zip idx ps) m"

definition update_model :: "config \<Rightarrow> collab \<Rightarrow> agent \<Rightarrow> error + (agent \<times> real)" where
  "update_model cfg co s =
     (let smp = sample_batch co (beta s);
          ws = reshape_column (weights smp);
          idx = indices smp
      in case compute_dqn_loss cfg co s smp None of
           Inl e \<Rightarrow> Inl e
         | Inr loss1 \<Rightarrow>
             (let smp_n = sample_batch_from_idxs co idx;
                  gam = gamma cfg ^ n_step cfg
              in case compute_dqn_loss cfg co s smp_n (Some gam) of
                   Inl e \<Rightarrow> Inl e
                 | Inr n_loss \<Rightarrow>
                     (let elementwise_loss = map2 (+) loss1 n_loss;
                          loss = mean2 (broadcast_mul elementwise_loss ws);
                          new_priorities = map (\<lambda>x. x + prior_eps cfg) elementwise_loss
                      in Inr (s\<lparr>loss_per_batch := loss_per_batch s + loss,
                                episode_step := episode_step s + 1,
                                dqn := gradient_step co (dqn s),
                                priorities := update_priorities idx new_priorities (priorities s)\<rparr>,
                              loss))))"

section \<open>Target maintenance and the update schedule\<close>

text \<open>
  \<^verbatim>\<open>_target_update\<close>: the loop over \<^verbatim>\<open>zip(dqn.parameters(), dqn_target.parameters())\<close>.
  Tensors of different sizes cannot be combined elementwise.
\<close>

fun soft_update :: "real \<Rightarrow> param list \<Rightarrow> (string \<times> param) list \<Rightarrow> error + (string \<times> param) list" where
  "soft_update t (w # ws) ((n, wt) # wts) =
     (if length (data w) \<noteq> length (data wt) then Inl RuntimeError
      else case soft_update t ws wts of
             Inl e \<Rightarrow> Inl e
           | Inr r \<Rightarrow>
               Inr ((n, wt\<lparr>data := map2 (+) (map (\<lambda>x. x * (1 - t)) (data wt))
                                            (map (\<lambda>x. x * t) (data w))\<rparr>) # r))"
| "soft_update t ws wts = Inr wts"

definition target_update :: "config \<Rightarrow> agent \<Rightarrow> error + agent" where
  "target_update cfg s =
     (case soft_update (tau cfg) (map snd (named_parameters (dqn s)))
             (named_parameters (dqn_target s)) of
        Inl e \<Rightarrow> Inl e
      | Inr ps \<Rightarrow> Inr (s\<lparr>dqn_target := (dqn_target s)\<lparr>named_parameters := ps\<rparr>\<rparr>))"

definition reset_noise :: "net \<Rightarrow> net" where
  "reset_noise n = n\<lparr>noise_epoch := noise_epoch n + 1\<rparr>"

definition update :: "config \<Rightarrow> collab \<Rightarrow> agent \<Rightarrow> error + agent" where
  "update cfg co s =
     (if batch_size cfg \<le> mem_len co then
        (case update_model cfg co s of
           Inl e \<Rightarrow> Inl e
         | Inr (s1, loss) \<Rightarrow>
             (let s2 = s1\<lparr>beta := max (buffer_beta_min cfg)
                              (beta s1 - (buffer_beta_max cfg - buffer_beta_min cfg)
                                 * buffer_beta_decay cfg)\<rparr>
              in case target_update cfg s2 of
                   Inl e \<Rightarrow> Inl e
                 | Inr s3 \<Rightarrow>
                     Inr (s3\<lparr>dqn := reset_noise (dqn s3),
                             dqn_target := reset_noise (dqn_target s3)\<rparr>)))
      else Inr s)"

text \<open>
  The states an agent goes through in a sequence of \<^verbatim>\<open>update\<close> calls, one collaborator
  behaviour per call; an exception ends the sequence.
\<close>

fun updates :: "config \<Rightarrow> agent \<Rightarrow> collab list \<Rightarrow> agent list" where
  "updates cfg s [] = [s]"
| "updates cfg s (co # rest) =
     s # (case update cfg co s of Inl e \<Rightarrow> [] | Inr s' \<Rightarrow> updates cfg s' rest)"

section \<open>Construction and metrics\<close>

text \<open>
  \<^verbatim>\<open>__init__\<close>: \<open>target0\<close> is the freshly constructed \<^verbatim>\<open>CategoricalNet\<close>;
  \<^verbatim>\<open>load_state_dict\<close> copies the online values into it and raises when the parameter
  names or sizes differ.
\<close>

definition load_state_dict :: "net \<Rightarrow> net \<Rightarrow> error + net" where
  "load_state_dict target src =
     (if map fst (named_parameters target) \<noteq> map fst (named_parameters src)
         \<or> map (shape \<circ> snd) (named_parameters target) \<noteq> map (shape \<circ> snd) (named_parameters src)
      then Inl RuntimeError
      else Inr (target\<lparr>named_parameters :=
                  map2 (\<lambda>(n, pt) (m, ps). (n, pt\<lparr>data := data ps\<rparr>))
                    (named_parameters target) (named_parameters src)\<rparr>))"

definition init :: "config \<Rightarrow> policy \<Rightarrow> net \<Rightarrow> error + agent" where
  "init cfg pol target0 =
     (let online = construct pol in
      case distribution pol of
        None \<Rightarrow> Inl NotImplementedError
      | Some d \<Rightarrow>
          (case load_state_dict target0 online of
             Inl e \<Rightarrow> Inl e
           | Inr tgt \<Rightarrow>
               Inr \<lparr>Policy = pol, dqn = online, dqn_target = tgt,
                    beta = buffer_beta_min cfg, loss_per_batch = 0, episode_step = 0,
                    priorities = Map.empty\<rparr>))"

text \<open>\<^verbatim>\<open>torch.std\<close>: the sample standard deviation (Bessel's correction).\<close>

definition std :: "real list \<Rightarrow> real" where
  "std xs = sqrt (sum_list (map (\<lambda>x. (x - mean xs)\<^sup>2) xs) / (real (length xs) - 1))"

text \<open>\<^verbatim>\<open>p.squeeze().dim()\<close>: the number of dimensions whose size is not one.\<close>

definition squeeze_dim :: "param \<Rightarrow> nat" where
  "squeeze_dim p = length (filter (\<lambda>d. d \<noteq> 1) (shape p))"

definition grads_of :: "(string \<times> param) list \<Rightarrow> (string \<rightharpoonup> real)" where
  "grads_of ps =
     fold (\<lambda>(name, p) g.
             if grad p \<noteq> None
             then (let avg = mean (data p);
                       sd = (if squeeze_dim p \<noteq> 0 then std (data p) else 0)
                   in g(name @ ''_std'' \<mapsto> sd, name @ ''_mean'' \<mapsto> avg))
             else g) ps Map.empty"

text \<open>\<^verbatim>\<open>metrics(episode_num)\<close>: the returned dictionary (or \<open>None\<close>) and the agent after it.\<close>

definition metrics :: "agent \<Rightarrow> int \<Rightarrow> (string \<rightharpoonup> real) option \<times> agent" where
  "metrics s episode_num =
     (if episode_num mod 10 \<noteq> 0 then
        (let loss_per_batch_mean =
               (if episode_step s \<noteq> 0 then loss_per_batch s / real (episode_step s) else 0);
             s' = s\<lparr>loss_per_batch := 0, episode_step := 0\<rparr>;
             grads = grads_of (named_parameters (dqn s'))
         in (Some ([''loss_per_batch'' \<mapsto> loss_per_batch_mean] ++ grads), s'))
      else (None, s))"

section \<open>Example inputs\<close>

text \<open>
  The scenario of the specification: three atoms on \<open>[0, 2]\<close>, a single sample with
  reward 1 that is not terminal, discount 1.
\<close>

definition cfg_c51 :: config where
  "cfg_c51 = \<lparr>batch_size = 1, gamma = 1, tau = 1/100, buffer_beta_max = 9/10,
     buffer_beta_min = 1/10, buffer_beta_decay = 1/2000, prior_eps = 1/1000000,
     atom_size = 3, n_step = 3, v_min = 0, v_max = 2\<rparr>"

text \<open>
  A small agent: two atoms on \<open>[0, 1]\<close>, batches of two samples, one action, and a single
  parameter tensor \<open>w\<close> of two entries.
\<close>

definition cfg_ex :: config where
  "cfg_ex = \<lparr>batch_size = 2, gamma = 1/2, tau = 1/2, buffer_beta_max = 9/10,
     buffer_beta_min = 1/10, buffer_beta_decay = 1/2000, prior_eps = 1/1000000,
     atom_size = 2, n_step = 1, v_min = 0, v_max = 1\<rparr>"

definition online_ex :: net where
  "online_ex = \<lparr>named_parameters = [(''w'', \<lparr>data = [1, 3], shape = [2], grad = None\<rparr>)],
     noise_epoch = 0\<rparr>"

definition stepped_ex :: net where
  "stepped_ex = \<lparr>named_parameters =
       [(''w'', \<lparr>data = [2, 5], shape = [2], grad = Some [1/2, - 1/2]\<rparr>)],
     noise_epoch = 0\<rparr>"

definition target0_ex :: net where
  "target0_ex = \<lparr>named_parameters = [(''w'', \<lparr>data = [0, 0], shape = [2], grad = None\<rparr>)],
     noise_epoch = 0\<rparr>"

definition pol_ex :: policy where
  "pol_ex = \<lparr>construct = online_ex, q_values = (\<lambda>n x. [0]),
     distribution = Some (\<lambda>n x. [[1/2, 1/2]])\<rparr>"

definition smp_ex :: samples where
  "smp_ex = \<lparr>obs = [[0], [1]], next_obs = [[0], [1]], acts = [0, 0], rews = [0, 0],
     done_flags = [0, 0], weights = [1/2, 1], indices = [0, 1]\<rparr>"

definition co_ex :: collab where
  "co_ex = \<lparr>mem_len = 2, sample_batch = (\<lambda>b. smp_ex), sample_batch_from_idxs = (\<lambda>i. smp_ex),
     target_distribution = (\<lambda>n x. if x = [0] then [[0, 1]] else [[1, 0]]),
     gradient_step = (\<lambda>n. stepped_ex)\<rparr>"

definition agent_ex :: agent where
  "agent_ex = \<lparr>Policy = pol_ex, dqn = online_ex,
     dqn_target = \<lparr>named_parameters = [(''w'', \<lparr>data = [1, 3], shape = [2], grad = None\<rparr>)],
       noise_epoch = 0\<rparr>,
     beta = 1/10, loss_per_batch = 0, episode_step = 0, priorities = Map.empty\<rparr>"

text \<open>The same agent after its gradient step and after the whole \<^verbatim>\<open>update\<close> call.\<close>

definition agent_ex_trained :: agent where
  "agent_ex_trained = agent_ex\<lparr>loss_per_batch := 3 / 4 * ln 2, episode_step := 1,
     dqn := stepped_ex,
     priorities := [0 \<mapsto> 2 * ln 2 + 1/1000000, 1 \<mapsto> 1/1000000]\<rparr>"

definition agent_ex_updated :: agent where
  "agent_ex_updated = \<lparr>Policy = pol_ex, dqn = stepped_ex\<lparr>noise_epoch := 1\<rparr>,
     dqn_target = \<lparr>named_parameters = [(''w'', \<lparr>data = [3/2, 4], shape = [2], grad = None\<rparr>)],
       noise_epoch = 1\<rparr>,
     beta = 1/10, loss_per_batch = 3 / 4 * ln 2, episode_step = 1,
     priorities = [0 \<mapsto> 2 * ln 2 + 1/1000000, 1 \<mapsto> 1/1000000]\<rparr>"

section \<open>Evaluation of the example\<close>

lemma cfg_ex_fields:
  "batch_size cfg_ex = 2" "atom_size cfg_ex = 2" "gamma cfg_ex = 1/2" "n_step cfg_ex = 1"
  "prior_eps cfg_ex = 1/1000000" "tau cfg_ex = 1/2" "buffer_beta_min cfg_ex = 1/10"
  "buffer_beta_max cfg_ex = 9/10" "buffer_beta_decay cfg_ex = 1/2000"
  by (simp_all add: cfg_ex_def)

lemma co_ex_fields:
  "mem_len co_ex = 2" "sample_batch co_ex b = smp_ex" "sample_batch_from_idxs co_ex i = smp_ex"
  "gradient_step co_ex n = stepped_ex"
  by (simp_all add: co_ex_def)

lemma smp_ex_fields:
  "weights smp_ex = [1/2, 1]" "indices smp_ex = [0, 1]"
  by (simp_all add: smp_ex_def)

lemma agent_ex_fields:
  "loss_per_batch agent_ex = 0" "episode_step agent_ex = 0" "priorities agent_ex = Map.empty"
  "beta agent_ex = 1/10"
  by (simp_all add: agent_ex_def)

lemma upt_two: "[0..<2] = [0, 1]"
  by (simp add: upt_rec)

lemma init_ex: "init cfg_ex pol_ex target0_ex = Inr agent_ex"
  by (simp add: init_def Let_def load_state_dict_def pol_ex_def online_ex_def target0_ex_def
      agent_ex_def cfg_ex_def)

lemma proj_dist_ex:
  "proj_dist cfg_ex (1/2) [0, 0] [0, 0] [[0, 1], [1, 0]] = Inr [[1/2, 1/2], [0, 0]]"
  by code_simp

lemma compute_dqn_loss_ex:
  "compute_dqn_loss cfg_ex co_ex agent_ex smp_ex g =
     (if g = None \<or> g = Some (1/2) then Inr [ln 2, 0]
      else compute_dqn_loss cfg_ex co_ex agent_ex smp_ex g)"
  unfolding compute_dqn_loss_def Let_def
  by (auto simp add: cfg_ex_fields smp_ex_def co_ex_def agent_ex_def pol_ex_def argmax_def
        select_rows_def upt_two proj_dist_ex ln_div)

lemma one_step_loss_ex: "compute_dqn_loss cfg_ex co_ex agent_ex smp_ex None = Inr [ln 2, 0]"
  by (subst compute_dqn_loss_ex) simp

lemma n_step_loss_ex:
  "compute_dqn_loss cfg_ex co_ex agent_ex smp_ex (Some (1/2)) = Inr [ln 2, 0]"
  by (subst compute_dqn_loss_ex) simp

lemma update_model_ex:
  "update_model cfg_ex co_ex agent_ex = Inr (agent_ex_trained, 3 / 4 * ln 2)"
  unfolding update_model_def Let_def agent_ex_trained_def
  by (simp add: cfg_ex_fields co_ex_fields smp_ex_fields agent_ex_fields one_step_loss_ex
      n_step_loss_ex mean2_def mean_def broadcast_mul_def reshape_column_def
      update_priorities_def)

lemma target_update_ex:
  "target_update cfg_ex (agent_ex_trained\<lparr>beta := 1/10\<rparr>) =
     Inr (agent_ex_trained\<lparr>beta := 1/10,
            dqn_target := \<lparr>named_parameters =
                [(''w'', \<lparr>data = [3/2, 4], shape = [2], grad = None\<rparr>)], noise_epoch = 0\<rparr>\<rparr>)"
  by (simp add: target_update_def cfg_ex_fields agent_ex_trained_def agent_ex_def stepped_ex_def)

lemma update_ex: "update cfg_ex co_ex agent_ex = Inr agent_ex_updated"
  unfolding update_def Let_def
  apply (simp add: cfg_ex_fields co_ex_fields update_model_ex)
  apply (simp add: agent_ex_trained_def agent_ex_fields)
  apply (simp add: target_update_ex[unfolded agent_ex_trained_def, simplified])
  apply (simp add: agent_ex_updated_def agent_ex_def reset_noise_def stepped_ex_def)
  done

section \<open>Helper lemmas\<close>

subsection \<open>What the steps of an update leave alone\<close>

lemma update_model_beta: "update_model cfg co s = Inr (s', l) \<Longrightarrow> beta s' = beta s"
  by (auto simp: update_model_def Let_def split: sum.splits)

lemma update_model_target:
  "update_model cfg co s = Inr (s', l) \<Longrightarrow>
     dqn_target s' = dqn_target s \<and> dqn s' = gradient_step co (dqn s)"
  by (auto simp: update_model_def Let_def split: sum.splits)

lemma target_update_beta: "target_update cfg s = Inr s' \<Longrightarrow> beta s' = beta s"
  by (auto simp: target_update_def split: sum.splits)

lemma update_unfold:
  assumes "batch_size cfg \<le> mem_len co" and "update cfg co s = Inr s'"
  obtains s1 l s3 where
    "update_model cfg co s = Inr (s1, l)"
    "target_update cfg (s1\<lparr>beta := max (buffer_beta_min cfg)
        (beta s1 - (buffer_beta_max cfg - buffer_beta_min cfg) * buffer_beta_decay cfg)\<rparr>)
      = Inr s3"
    "s' = s3\<lparr>dqn := reset_noise (dqn s3), dqn_target := reset_noise (dqn_target s3)\<rparr>"
  using assms by (auto simp: update_def Let_def split: sum.splits prod.splits)

subsection \<open>The beta schedule\<close>

lemma update_beta_floor:
  assumes "update cfg co s = Inr s'" and "beta s = buffer_beta_min cfg"
    and "buffer_beta_min cfg \<le> buffer_beta_max cfg" and "0 \<le> buffer_beta_decay cfg"
  shows "beta s' = buffer_beta_min cfg"
proof (cases "batch_size cfg \<le> mem_len co")
  case False
  with assms show ?thesis by (simp add: update_def)
next
  case True
  from True assms(1) obtain s1 l s3 where
    um: "update_model cfg co s = Inr (s1, l)" and
    tu: "target_update cfg (s1\<lparr>beta := max (buffer_beta_min cfg)
           (beta s1 - (buffer_beta_max cfg - buffer_beta_min cfg) * buffer_beta_decay cfg)\<rparr>)
         = Inr s3" and
    s': "s' = s3\<lparr>dqn := reset_noise (dqn s3), dqn_target := reset_noise (dqn_target s3)\<rparr>"
    by (rule update_unfold)
  have "0 \<le> (buffer_beta_max cfg - buffer_beta_min cfg) * buffer_beta_decay cfg"
    using assms(3,4) by simp
  then have "max (buffer_beta_min cfg)
           (beta s1 - (buffer_beta_max cfg - buffer_beta_min cfg) * buffer_beta_decay cfg)
         = buffer_beta_min cfg"
    using update_model_beta[OF um] assms(2) by (simp add: max_def)
  with target_update_beta[OF tu] s' show ?thesis by simp
qed

lemma updates_beta_floor:
  assumes "buffer_beta_min cfg \<le> buffer_beta_max cfg" and "0 \<le> buffer_beta_decay cfg"
  shows "beta s = buffer_beta_min cfg \<Longrightarrow>
           \<forall>s' \<in> set (updates cfg s cs). beta s' = buffer_beta_min cfg"
proof (induction cs arbitrary: s)
  case Nil
  then show ?case by simp
next
  case (Cons co cs)
  show ?case
  proof (cases "update cfg co s")
    case (Inl e)
    with Cons.prems show ?thesis by simp
  next
    case (Inr s1)
    from update_beta_floor[OF Inr Cons.prems assms] have "beta s1 = buffer_beta_min cfg" .
    from Cons.IH[OF this] Inr Cons.prems show ?thesis by simp
  qed
qed

lemma init_beta: "init cfg pol target0 = Inr s \<Longrightarrow> beta s = buffer_beta_min cfg"
  by (auto simp: init_def Let_def split: option.splits sum.splits)

subsection \<open>The soft update of the parameter lists\<close>

lemma map2_blend:
  "map2 (+) (map (\<lambda>x. x * (1 - t)) a) (map (\<lambda>x. x * t) b)
     = map2 (\<lambda>x y. x * (1 - t) + y * t) a (b::real list)"
  by (simp add: zip_map_map split_def)

lemma soft_update_total:
  "\<forall>(w, nwt) \<in> set (zip ws wts). length (data w) = length (data (snd nwt)) \<Longrightarrow>
     \<exists>r. soft_update t ws wts = Inr r"
  by (induction t ws wts rule: soft_update.induct) auto

lemma soft_update_length: "soft_update t ws wts = Inr r \<Longrightarrow> length r = length wts"
  by (induction t ws wts arbitrary: r rule: soft_update.induct)
     (auto split: if_splits sum.splits)

lemma blend_zero: "length a = length b \<Longrightarrow> map2 (\<lambda>x y. x * (1 - 0) + y * 0) a (b::real list) = a"
proof -
  assume l: "length a = length b"
  have "(\<lambda>(x::real, y::real). x) = fst" by auto
  with l show ?thesis by (simp add: map_fst_zip)
qed

lemma blend_one: "length a = length b \<Longrightarrow> map2 (\<lambda>x y. x * (1 - 1) + y * 1) a (b::real list) = b"
proof -
  assume l: "length a = length b"
  have "(\<lambda>(x::real, y::real). y) = snd" by auto
  with l show ?thesis by (simp add: map_snd_zip)
qed

lemma soft_update_nth:
  "soft_update t ws wts = Inr r \<Longrightarrow> i < length ws \<Longrightarrow> i < length wts \<Longrightarrow>
     r ! i = (fst (wts ! i), (snd (wts ! i))\<lparr>data :=
                map2 (\<lambda>x y. x * (1 - t) + y * t) (data (snd (wts ! i))) (data (ws ! i))\<rparr>)
     \<and> length (data (ws ! i)) = length (data (snd (wts ! i)))"
proof (induction t ws wts arbitrary: r i rule: soft_update.induct)
  case (1 t w ws n wt wts)
  from "1.prems"(1) obtain r' where
    len: "length (data w) = length (data wt)" and
    r': "soft_update t ws wts = Inr r'" and
    r: "r = (n, wt\<lparr>data := map2 (\<lambda>x y. x * (1 - t) + y * t) (data wt) (data w)\<rparr>) # r'"
    by (auto split: if_splits sum.splits simp: map2_blend)
  show ?case
  proof (cases i)
    case 0
    with len r show ?thesis by simp
  next
    case (Suc j)
    with "1.prems" have "j < length ws" "j < length wts" by simp_all
    from "1.IH"[OF _ r' this] len Suc r show ?thesis by simp
  qed
qed simp_all

lemma soft_update_rest:
  "soft_update t ws wts = Inr r \<Longrightarrow> length ws \<le> i \<Longrightarrow> i < length wts \<Longrightarrow> r ! i = wts ! i"
proof (induction t ws wts arbitrary: r i rule: soft_update.induct)
  case (1 t w ws n wt wts)
  from "1.prems"(1) obtain r' where
    len: "length (data w) = length (data wt)" and
    r': "soft_update t ws wts = Inr r'" and
    r: "r = (n, wt\<lparr>data := map2 (\<lambda>x y. x * (1 - t) + y * t) (data wt) (data w)\<rparr>) # r'"
    by (auto split: if_splits sum.splits simp: map2_blend)
  from "1.prems" obtain j where j: "i = Suc j" by (cases i) auto
  with "1.prems" have "length ws \<le> j" "j < length wts" by simp_all
  from "1.IH"[OF _ r' this] len j r show ?case by simp
qed simp_all

lemma soft_update_zero: "soft_update 0 ws wts = Inr r \<Longrightarrow> r = wts"
proof (induction "0::real" ws wts arbitrary: r rule: soft_update.induct)
  case (1 w ws n wt wts)
  from "1.prems"(1) obtain r' where
    len: "length (data w) = length (data wt)" and
    r': "soft_update 0 ws wts = Inr r'" and
    r: "r = (n, wt\<lparr>data := map2 (\<lambda>x y. x * (1 - 0) + y * 0) (data wt) (data w)\<rparr>) # r'"
    by (auto split: if_splits sum.splits simp: map2_blend[of 0, simplified])
  from "1.hyps"[OF _ r'] len have "r' = wts" by simp
  with r blend_zero[of "data wt" "data w"] len show ?case by simp
qed simp_all

subsection \<open>Priorities and the broadcast mean\<close>

lemma fold_upd_map_of:
  "fold (\<lambda>(i, p) m. m(i \<mapsto> p)) xs m = m ++ map_of (rev xs)"
proof (induction xs arbitrary: m)
  case Nil
  then show ?case by simp
next
  case (Cons a xs)
  obtain i p where a: "a = (i, p)" by (cases a)
  have "fold (\<lambda>(i, p) m. m(i \<mapsto> p)) (a # xs) m = fold (\<lambda>(i, p) m. m(i \<mapsto> p)) xs (m(i \<mapsto> p))"
    using a by simp
  also have "\<dots> = m(i \<mapsto> p) ++ map_of (rev xs)"
    by (rule Cons.IH)
  also have "\<dots> = m ++ ([i \<mapsto> p] ++ map_of (rev xs))"
    by (rule ext) (simp add: map_add_def split: option.splits)
  also have "\<dots> = m ++ map_of (rev (a # xs))"
    using a by simp
  finally show ?case .
qed

lemma update_priorities_lookup:
  assumes "update_priorities idx ps m i = Some p"
  shows "p \<in> set ps \<or> m i = Some p"
proof (cases "map_of (rev (zip idx ps)) i")
  case None
  with assms show ?thesis
    unfolding update_priorities_def fold_upd_map_of by (simp add: map_add_def)
next
  case (Some q)
  then have "(i, q) \<in> set (zip idx ps)" using map_of_SomeD by fastforce
  then have "q \<in> set ps" by (rule set_zip_rightD)
  moreover from Some assms have "p = q"
    unfolding update_priorities_def fold_upd_map_of by (simp add: map_add_def)
  ultimately show ?thesis by simp
qed

lemma update_priorities_written:
  assumes "i \<in> set (take (length ps) idx)"
  shows "\<exists>p \<in> set ps. update_priorities idx ps m i = Some p"
proof -
  have "take (min (length idx) (length ps)) idx = take (length ps) idx"
    by (simp add: min_def)
  then have "fst ` set (rev (zip idx ps)) = set (take (length ps) idx)"
    by (simp add: map_fst_zip_take flip: set_map)
  with assms have "i \<in> dom (map_of (rev (zip idx ps)))"
    by (simp add: dom_map_of_conv_image_fst)
  then obtain p where p: "map_of (rev (zip idx ps)) i = Some p" by blast
  then have "(i, p) \<in> set (zip idx ps)" using map_of_SomeD by fastforce
  then have "p \<in> set ps" by (rule set_zip_rightD)
  with p show ?thesis
    unfolding update_priorities_def fold_upd_map_of by (auto simp: map_add_def)
qed

lemma sum_list_concat_scaled:
  "sum_list (concat (map (\<lambda>row. map (\<lambda>x. x * hd row) v) (map (\<lambda>w. [w]) ws)))
     = sum_list v * sum_list (ws::real list)"
proof (induction ws)
  case Nil
  then show ?case by simp
next
  case (Cons w ws)
  have "sum_list (map (\<lambda>x. x * w) v) = sum_list v * w"
    by (simp add: sum_list_mult_const)
  with Cons show ?case by (simp add: algebra_simps)
qed

lemma length_concat_scaled:
  "length (concat (map (\<lambda>row. map (\<lambda>x. x * hd row) v) (map (\<lambda>w. [w]) ws)))
     = length v * length (ws::real list)"
  by (induction ws) simp_all

lemma mean2_broadcast_mul:
  "mean2 (broadcast_mul v (reshape_column ws))
     = sum_list v * sum_list ws / (real (length v) * real (length ws))"
  unfolding mean2_def mean_def broadcast_mul_def reshape_column_def
  by (simp only: sum_list_concat_scaled length_concat_scaled of_nat_mult)

subsection \<open>The target parameters after an update\<close>

lemma target_update_unfold:
  "target_update cfg s = Inr s' \<longleftrightarrow>
     (\<exists>ps. soft_update (tau cfg) (map snd (named_parameters (dqn s)))
             (named_parameters (dqn_target s)) = Inr ps
           \<and> s' = s\<lparr>dqn_target := (dqn_target s)\<lparr>named_parameters := ps\<rparr>\<rparr>)"
  by (auto simp: target_update_def split: sum.splits)

lemma update_target_parameters:
  assumes "batch_size cfg \<le> mem_len co" and "update cfg co s0 = Inr s1"
  shows "soft_update (tau cfg) (map snd (named_parameters (gradient_step co (dqn s0))))
           (named_parameters (dqn_target s0)) = Inr (named_parameters (dqn_target s1))"
proof -
  from assms obtain sm l s3 where
    um: "update_model cfg co s0 = Inr (sm, l)" and
    tu: "target_update cfg (sm\<lparr>beta := max (buffer_beta_min cfg)
           (beta sm - (buffer_beta_max cfg - buffer_beta_min cfg) * buffer_beta_decay cfg)\<rparr>)
         = Inr s3" and
    s1: "s1 = s3\<lparr>dqn := reset_noise (dqn s3), dqn_target := reset_noise (dqn_target s3)\<rparr>"
    by (rule update_unfold)
  from update_model_target[OF um] have
    t: "dqn_target sm = dqn_target s0" and d: "dqn sm = gradient_step co (dqn s0)" by simp_all
  from tu obtain ps where
    ps: "soft_update (tau cfg) (map snd (named_parameters (gradient_step co (dqn s0))))
           (named_parameters (dqn_target s0)) = Inr ps"
    and "named_parameters (dqn_target s3) = ps"
    unfolding target_update_unfold by (auto simp: t d)
  with s1 show ?thesis by (simp add: reset_noise_def)
qed

section \<open>The claims\<close>

text \<open>
  Claim C1. In the scenario of the specification (three atoms on \<open>[0, 2]\<close>, reward 1, not
  terminal, discount 1, next-state mass 1 at atom index 1) the grid positions are
  \<open>[1, 2, 2]\<close>, all integers, so \<open>l = u\<close> and both interpolation weights \<open>u - b\<close> and
  \<open>b - l\<close> are zero: the code projects the distribution to all zeros, it does not put the
  mass 1 at atom index 2.
\<close>

theorem projection_drops_mass_on_grid_point:
  "b_row cfg_c51 1 1 0 = [1, 2, 2]
   \<and> proj_dist cfg_c51 1 [1] [0] [[0, 1, 0]] = Inr [[0, 0, 0]]"
  by code_simp

theorem projection_drops_mass_on_grid_point_witness:
  "proj_dist cfg_c51 1 [1] [0] [[0, 1, 0]] \<noteq> Inr [[0, 0, 1]]"
  using projection_drops_mass_on_grid_point by simp

text \<open>
  Claim C2. The projection does not keep the mass of every sample: in a batch of two
  samples whose next-state distributions both sum to 1, the second sample has its mass on
  an atom whose grid position is the integer 0, and its projected distribution sums to 0.
\<close>

theorem projection_loses_total_mass:
  "proj_dist cfg_ex (1/2) [0, 0] [0, 0] [[0, 1], [1, 0]] = Inr [[1/2, 1/2], [0, 0]]
   \<and> map sum_list [[0, 1], [1, 0::real]] = [1, 1]
   \<and> map sum_list [[1/2, 1/2], [0, 0::real]] = [1, 0]"
  using proj_dist_ex by simp

theorem projection_loses_total_mass_witness:
  "map_sum id (map sum_list) (proj_dist cfg_ex (1/2) [0, 0] [0, 0] [[0, 1], [1, 0]])
     \<noteq> Inr (map sum_list [[0, 1], [1, 0]])"
  using projection_loses_total_mass by simp

text \<open>
  Claim C3. On the example batch the one-step loss (discount \<open>gamma\<close>) and the n-step
  loss (discount \<open>gamma ^ n_step\<close>, same indices) are both \<open>[ln 2, 0]\<close> and the weights
  are \<open>[1/2, 1]\<close>. The scalar loss of \<^verbatim>\<open>update_model\<close> is \<open>3/4 * ln 2\<close>, the mean of
  the (B, B) broadcast product, whereas the mean of the losses multiplied sample by
  sample with their importance weights is \<open>ln 2 / 2\<close>. In general the broadcast mean is
  the product of the sum of the losses and the sum of the weights, divided by the number
  of entries of the (B, B) product.
\<close>

theorem update_model_loss_is_broadcast_mean:
  "compute_dqn_loss cfg_ex co_ex agent_ex (sample_batch co_ex (beta agent_ex)) None
     = Inr [ln 2, 0]
   \<and> compute_dqn_loss cfg_ex co_ex agent_ex
       (sample_batch_from_idxs co_ex (indices (sample_batch co_ex (beta agent_ex))))
       (Some (gamma cfg_ex ^ n_step cfg_ex)) = Inr [ln 2, 0]
   \<and> weights (sample_batch co_ex (beta agent_ex)) = [1/2, 1]
   \<and> map_sum id snd (update_model cfg_ex co_ex agent_ex) = Inr (3 / 4 * ln 2)
   \<and> mean (map2 (*) (map2 (+) [ln 2, 0] [ln 2, 0]) [1/2, 1]) = ln 2 / 2
   \<and> 3 / 4 * ln 2 \<noteq> ln 2 / (2::real)
   \<and> mean2 (broadcast_mul v (reshape_column ws))
       = sum_list v * sum_list ws / (real (length v) * real (length ws))"
  by (simp add: co_ex_fields cfg_ex_fields smp_ex_fields one_step_loss_ex n_step_loss_ex
      update_model_ex mean_def mean2_broadcast_mul)

theorem update_model_loss_is_broadcast_mean_witness:
  "map_sum id snd (update_model cfg_ex co_ex agent_ex)
     \<noteq> Inr (mean (map2 (*) (map2 (+) [ln 2, 0] [ln 2, 0]) [1/2, 1]))"
proof -
  from update_model_loss_is_broadcast_mean
  have l: "map_sum id snd (update_model cfg_ex co_ex agent_ex) = Inr (3 / 4 * ln 2)"
    and m: "mean (map2 (*) (map2 (+) [ln 2, 0] [ln 2, 0]) [1/2, 1]) = ln 2 / 2"
    and ne: "3 / 4 * ln 2 \<noteq> ln 2 / (2::real)"
    by blast+
  show ?thesis unfolding l m using ne by simp
qed

text \<open>
  Claim C4. With \<open>buffer_beta_min \<le> buffer_beta_max\<close> and a non-negative decay, in every
  state an agent reaches from its construction through any sequence of \<^verbatim>\<open>update\<close> calls,
  \<open>beta\<close> lies between \<open>buffer_beta_min\<close> and \<open>buffer_beta_max\<close>.
\<close>

theorem beta_within_bounds:
  assumes "buffer_beta_min cfg \<le> buffer_beta_max cfg" and "0 \<le> buffer_beta_decay cfg"
    and "init cfg pol target0 = Inr s0"
  shows "\<forall>s \<in> set (updates cfg s0 cs).
           buffer_beta_min cfg \<le> beta s \<and> beta s \<le> buffer_beta_max cfg"
  using updates_beta_floor[OF assms(1,2) init_beta[OF assms(3)], of cs] assms(1) by simp

theorem beta_within_bounds_witness:
  "buffer_beta_min cfg_ex \<le> buffer_beta_max cfg_ex \<and> 0 \<le> buffer_beta_decay cfg_ex
   \<and> init cfg_ex pol_ex target0_ex = Inr agent_ex
   \<and> updates cfg_ex agent_ex [co_ex] = [agent_ex, agent_ex_updated]
   \<and> buffer_beta_min cfg_ex \<le> beta agent_ex_updated
   \<and> beta agent_ex_updated \<le> buffer_beta_max cfg_ex"
proof -
  have h1: "buffer_beta_min cfg_ex \<le> buffer_beta_max cfg_ex"
    and h2: "0 \<le> buffer_beta_decay cfg_ex"
    by (simp_all add: cfg_ex_fields)
  have run: "updates cfg_ex agent_ex [co_ex] = [agent_ex, agent_ex_updated]"
    by (simp add: update_ex)
  have "agent_ex_updated \<in> set (updates cfg_ex agent_ex [co_ex])"
    unfolding run by simp
  with beta_within_bounds[OF h1 h2 init_ex, of "[co_ex]"]
  have "buffer_beta_min cfg_ex \<le> beta agent_ex_updated
        \<and> beta agent_ex_updated \<le> buffer_beta_max cfg_ex" by blast
  with h1 h2 init_ex run show ?thesis by blast
qed

text \<open>
  Claim C5. While the prioritized store holds fewer than \<open>batch_size\<close> transitions,
  \<^verbatim>\<open>update\<close> returns the agent as it was: accumulated loss, online and target
  parameters, noise counters, priorities and \<open>beta\<close> are all unchanged.
\<close>

theorem update_noop_during_warmup:
  "mem_len co < batch_size cfg \<Longrightarrow> update cfg co s = Inr s"
  by (simp add: update_def)

theorem update_noop_during_warmup_witness:
  "mem_len (co_ex\<lparr>mem_len := 1\<rparr>) < batch_size cfg_ex
   \<and> update cfg_ex (co_ex\<lparr>mem_len := 1\<rparr>) agent_ex = Inr agent_ex"
proof -
  have h: "mem_len (co_ex\<lparr>mem_len := 1\<rparr>) < batch_size cfg_ex"
    by (simp add: cfg_ex_fields)
  from update_noop_during_warmup[OF h, of agent_ex] h show ?thesis by simp
qed

text \<open>
  Claim C6. When paired online and target tensors have the same size, \<^verbatim>\<open>_target_update\<close>
  succeeds and sets every paired target tensor to \<open>target * (1 - tau) + online * tau\<close>,
  entry by entry; with \<open>tau = 0\<close> the agent is unchanged, with \<open>tau = 1\<close> every paired
  target tensor equals its online tensor. A call of \<^verbatim>\<open>update\<close> that passes the warm-up gate
  leaves the target parameters that one soft update of the old target toward the online
  network after its gradient step gives.
\<close>

theorem soft_target_update:
  assumes "\<forall>(w, nwt) \<in> set (zip (map snd (named_parameters (dqn s)))
                                 (named_parameters (dqn_target s))).
             length (data w) = length (data (snd nwt))"
  shows "(\<exists>s'. target_update cfg s = Inr s'
            \<and> dqn s' = dqn s
            \<and> length (named_parameters (dqn_target s')) = length (named_parameters (dqn_target s))
            \<and> (\<forall>i. i < length (named_parameters (dqn s))
                    \<and> i < length (named_parameters (dqn_target s)) \<longrightarrow>
                  data (snd (named_parameters (dqn_target s') ! i))
                    = map2 (\<lambda>x y. x * (1 - tau cfg) + y * tau cfg)
                        (data (snd (named_parameters (dqn_target s) ! i)))
                        (data (snd (named_parameters (dqn s) ! i)))))
       \<and> target_update (cfg\<lparr>tau := 0\<rparr>) s = Inr s
       \<and> (\<exists>s'. target_update (cfg\<lparr>tau := 1\<rparr>) s = Inr s'
            \<and> (\<forall>i. i < length (named_parameters (dqn s))
                    \<and> i < length (named_parameters (dqn_target s)) \<longrightarrow>
                  data (snd (named_parameters (dqn_target s') ! i))
                    = data (snd (named_parameters (dqn s) ! i))))
       \<and> (batch_size cfg \<le> mem_len co \<and> update cfg co s0 = Inr s1 \<longrightarrow>
            soft_update (tau cfg) (map snd (named_parameters (gradient_step co (dqn s0))))
              (named_parameters (dqn_target s0)) = Inr (named_parameters (dqn_target s1)))"
proof -
  let ?ws = "map snd (named_parameters (dqn s))"
  let ?wts = "named_parameters (dqn_target s)"
  have step: "\<exists>s'. target_update c s = Inr s'
            \<and> dqn s' = dqn s
            \<and> length (named_parameters (dqn_target s')) = length ?wts
            \<and> (\<forall>i. i < length (named_parameters (dqn s)) \<and> i < length ?wts \<longrightarrow>
                  data (snd (named_parameters (dqn_target s') ! i))
                    = map2 (\<lambda>x y. x * (1 - tau c) + y * tau c)
                        (data (snd (?wts ! i))) (data (snd (named_parameters (dqn s) ! i)))
                  \<and> length (data (snd (named_parameters (dqn s) ! i)))
                      = length (data (snd (?wts ! i))))" for c
  proof -
    from soft_update_total[OF assms] obtain ps where
      ps: "soft_update (tau c) ?ws ?wts = Inr ps" by blast
    let ?s' = "s\<lparr>dqn_target := (dqn_target s)\<lparr>named_parameters := ps\<rparr>\<rparr>"
    have "target_update c s = Inr ?s'"
      unfolding target_update_unfold using ps by blast
    moreover have "length ps = length ?wts" by (rule soft_update_length[OF ps])
    moreover have "data (snd (ps ! i))
        = map2 (\<lambda>x y. x * (1 - tau c) + y * tau c)
            (data (snd (?wts ! i))) (data (snd (named_parameters (dqn s) ! i)))
        \<and> length (data (snd (named_parameters (dqn s) ! i))) = length (data (snd (?wts ! i)))"
      if "i < length (named_parameters (dqn s))" "i < length ?wts" for i
      using soft_update_nth[OF ps, of i] that by simp
    ultimately show ?thesis by auto
  qed
  have A: "\<exists>s'. target_update cfg s = Inr s'
            \<and> dqn s' = dqn s
            \<and> length (named_parameters (dqn_target s')) = length ?wts
            \<and> (\<forall>i. i < length (named_parameters (dqn s)) \<and> i < length ?wts \<longrightarrow>
                  data (snd (named_parameters (dqn_target s') ! i))
                    = map2 (\<lambda>x y. x * (1 - tau cfg) + y * tau cfg)
                        (data (snd (?wts ! i))) (data (snd (named_parameters (dqn s) ! i))))"
    using step[of cfg] by blast
  have B: "target_update (cfg\<lparr>tau := 0\<rparr>) s = Inr s"
  proof -
    from soft_update_total[OF assms] obtain ps where
      ps: "soft_update 0 ?ws ?wts = Inr ps" by blast
    from soft_update_zero[OF ps] ps show ?thesis
      by (simp add: target_update_def)
  qed
  have C: "\<exists>s'. target_update (cfg\<lparr>tau := 1\<rparr>) s = Inr s'
            \<and> (\<forall>i. i < length (named_parameters (dqn s)) \<and> i < length ?wts \<longrightarrow>
                  data (snd (named_parameters (dqn_target s') ! i))
                    = data (snd (named_parameters (dqn s) ! i)))"
  proof -
    from step[of "cfg\<lparr>tau := 1\<rparr>"] obtain s' where
      tu: "target_update (cfg\<lparr>tau := 1\<rparr>) s = Inr s'" and
      nth: "\<And>i. i < length (named_parameters (dqn s)) \<Longrightarrow> i < length ?wts \<Longrightarrow>
              data (snd (named_parameters (dqn_target s') ! i))
                = map2 (\<lambda>x y. x * (1 - 1) + y * 1)
                    (data (snd (?wts ! i))) (data (snd (named_parameters (dqn s) ! i)))
              \<and> length (data (snd (named_parameters (dqn s) ! i)))
                  = length (data (snd (?wts ! i)))"
      by auto
    have "data (snd (named_parameters (dqn_target s') ! i))
            = data (snd (named_parameters (dqn s) ! i))"
      if "i < length (named_parameters (dqn s))" "i < length ?wts" for i
      using nth[OF that] blend_one[of "data (snd (?wts ! i))"
          "data (snd (named_parameters (dqn s) ! i))"] by simp
    with tu show ?thesis by blast
  qed
  have D: "batch_size cfg \<le> mem_len co \<and> update cfg co s0 = Inr s1 \<longrightarrow>
            soft_update (tau cfg) (map snd (named_parameters (gradient_step co (dqn s0))))
              (named_parameters (dqn_target s0)) = Inr (named_parameters (dqn_target s1))"
    using update_target_parameters by blast
  from A B C D show ?thesis by blast
qed

theorem soft_target_update_witness:
  "target_update (cfg_ex\<lparr>tau := 0\<rparr>) agent_ex_trained = Inr agent_ex_trained
   \<and> (\<exists>s'. target_update (cfg_ex\<lparr>tau := 1\<rparr>) agent_ex_trained = Inr s'
         \<and> data (snd (named_parameters (dqn_target s') ! 0)) = [2, 5])
   \<and> (\<exists>s'. target_update cfg_ex agent_ex_trained = Inr s'
         \<and> data (snd (named_parameters (dqn_target s') ! 0)) = [3/2, 4])
   \<and> soft_update (tau cfg_ex) (map snd (named_parameters (gradient_step co_ex (dqn agent_ex))))
        (named_parameters (dqn_target agent_ex))
      = Inr (named_parameters (dqn_target agent_ex_updated))"
proof -
  have hyp: "\<forall>(w, nwt) \<in> set (zip (map snd (named_parameters (dqn agent_ex_trained)))
                                 (named_parameters (dqn_target agent_ex_trained))).
             length (data w) = length (data (snd nwt))"
    by (simp add: agent_ex_trained_def agent_ex_def stepped_ex_def)
  have online: "named_parameters (dqn agent_ex_trained)
      = [(''w'', \<lparr>data = [2, 5], shape = [2], grad = Some [1/2, - 1/2]\<rparr>)]"
    and target: "named_parameters (dqn_target agent_ex_trained)
      = [(''w'', \<lparr>data = [1, 3], shape = [2], grad = None\<rparr>)]"
    by (simp_all add: agent_ex_trained_def agent_ex_def stepped_ex_def)
  note inst = soft_target_update[OF hyp, of cfg_ex co_ex agent_ex agent_ex_updated]
  from inst have zero: "target_update (cfg_ex\<lparr>tau := 0\<rparr>) agent_ex_trained = Inr agent_ex_trained"
    by blast
  from inst obtain s1 where
    "target_update (cfg_ex\<lparr>tau := 1\<rparr>) agent_ex_trained = Inr s1"
    "\<forall>i. i < length (named_parameters (dqn agent_ex_trained))
          \<and> i < length (named_parameters (dqn_target agent_ex_trained)) \<longrightarrow>
        data (snd (named_parameters (dqn_target s1) ! i))
          = data (snd (named_parameters (dqn agent_ex_trained) ! i))"
    by blast
  then have one: "\<exists>s'. target_update (cfg_ex\<lparr>tau := 1\<rparr>) agent_ex_trained = Inr s'
         \<and> data (snd (named_parameters (dqn_target s') ! 0)) = [2, 5]"
    unfolding online target by auto
  from inst obtain s2 where
    "target_update cfg_ex agent_ex_trained = Inr s2"
    "\<forall>i. i < length (named_parameters (dqn agent_ex_trained))
          \<and> i < length (named_parameters (dqn_target agent_ex_trained)) \<longrightarrow>
        data (snd (named_parameters (dqn_target s2) ! i))
          = map2 (\<lambda>x y. x * (1 - tau cfg_ex) + y * tau cfg_ex)
              (data (snd (named_parameters (dqn_target agent_ex_trained) ! i)))
              (data (snd (named_parameters (dqn agent_ex_trained) ! i)))"
    by blast
  then have half: "\<exists>s'. target_update cfg_ex agent_ex_trained = Inr s'
         \<and> data (snd (named_parameters (dqn_target s') ! 0)) = [3/2, 4]"
    unfolding online target by (auto simp: cfg_ex_fields)
  have gate: "batch_size cfg_ex \<le> mem_len co_ex"
    by (simp add: cfg_ex_fields co_ex_fields)
  with inst update_ex have upd:
    "soft_update (tau cfg_ex) (map snd (named_parameters (gradient_step co_ex (dqn agent_ex))))
        (named_parameters (dqn_target agent_ex))
      = Inr (named_parameters (dqn_target agent_ex_updated))"
    by blast
  from zero one half upd show ?thesis by blast
qed

text \<open>
  Claim C7. After \<^verbatim>\<open>update_model\<close> the priorities of the store are the old ones
  overwritten, at the sampled indices, with the summed elementwise loss plus \<open>prior_eps\<close>;
  when \<open>prior_eps\<close> is positive and the elementwise loss non-negative, every priority
  written is strictly positive, and so is every stored priority if the stored ones were.
\<close>

theorem priorities_written_back:
  assumes "update_model cfg co s = Inr (s', loss)"
    and "compute_dqn_loss cfg co s (sample_batch co (beta s)) None = Inr loss1"
    and "compute_dqn_loss cfg co s
           (sample_batch_from_idxs co (indices (sample_batch co (beta s))))
           (Some (gamma cfg ^ n_step cfg)) = Inr n_loss"
    and "0 < prior_eps cfg"
    and "\<forall>x \<in> set (map2 (+) loss1 n_loss). 0 \<le> x"
  shows "priorities s'
           = update_priorities (indices (sample_batch co (beta s)))
               (map (\<lambda>x. x + prior_eps cfg) (map2 (+) loss1 n_loss)) (priorities s)
       \<and> (\<forall>p \<in> set (map (\<lambda>x. x + prior_eps cfg) (map2 (+) loss1 n_loss)). 0 < p)
       \<and> (\<forall>i \<in> set (take (length (map2 (+) loss1 n_loss)) (indices (sample_batch co (beta s)))).
            \<exists>p. priorities s' i = Some p \<and> 0 < p)
       \<and> ((\<forall>i q. priorities s i = Some q \<longrightarrow> 0 < q) \<longrightarrow>
            (\<forall>i p. priorities s' i = Some p \<longrightarrow> 0 < p))"
proof -
  let ?idx = "indices (sample_batch co (beta s))"
  let ?new = "map (\<lambda>x. x + prior_eps cfg) (map2 (+) loss1 n_loss)"
  have eq: "priorities s' = update_priorities ?idx ?new (priorities s)"
    using assms(1) by (auto simp: update_model_def Let_def assms(2,3))
  have pos: "\<forall>p \<in> set ?new. 0 < p"
  proof
    fix p assume "p \<in> set ?new"
    then obtain x where x: "x \<in> set (map2 (+) loss1 n_loss)" and p: "p = x + prior_eps cfg"
      by auto
    from assms(5) x have "0 \<le> x" by blast
    with assms(4) p show "0 < p" by simp
  qed
  have written: "\<exists>p. priorities s' i = Some p \<and> 0 < p"
    if "i \<in> set (take (length (map2 (+) loss1 n_loss)) ?idx)" for i
  proof -
    from that have "i \<in> set (take (length ?new) ?idx)" by simp
    from update_priorities_written[OF this, of "priorities s"] pos eq
    show ?thesis by auto
  qed
  have inv: "0 < p"
    if "\<forall>i q. priorities s i = Some q \<longrightarrow> 0 < q" and "priorities s' i = Some p" for i p
    using update_priorities_lookup[of ?idx ?new "priorities s" i p] that pos eq by auto
  from eq pos written inv show ?thesis by blast
qed

theorem priorities_written_back_witness:
  "update_model cfg_ex co_ex agent_ex = Inr (agent_ex_trained, 3 / 4 * ln 2)
   \<and> 0 < prior_eps cfg_ex
   \<and> priorities agent_ex_trained
       = update_priorities [0, 1] [2 * ln 2 + 1/1000000, 1/1000000] Map.empty
   \<and> priorities agent_ex_trained 0 = Some (2 * ln 2 + 1/1000000)
   \<and> priorities agent_ex_trained 1 = Some (1/1000000)
   \<and> 0 < 2 * ln 2 + 1 / (1000000::real)"
proof -
  have h2: "compute_dqn_loss cfg_ex co_ex agent_ex (sample_batch co_ex (beta agent_ex)) None
              = Inr [ln 2, 0]"
    by (simp add: co_ex_fields one_step_loss_ex)
  have h3: "compute_dqn_loss cfg_ex co_ex agent_ex
              (sample_batch_from_idxs co_ex (indices (sample_batch co_ex (beta agent_ex))))
              (Some (gamma cfg_ex ^ n_step cfg_ex)) = Inr [ln 2, 0]"
    by (simp add: co_ex_fields cfg_ex_fields n_step_loss_ex)
  have h4: "0 < prior_eps cfg_ex" by (simp add: cfg_ex_fields)
  have h5: "\<forall>x \<in> set (map2 (+) [ln 2, 0] [ln 2, 0::real]). 0 \<le> x" by simp
  from priorities_written_back[OF update_model_ex h2 h3 h4 h5]
  have eq: "priorities agent_ex_trained
           = update_priorities (indices (sample_batch co_ex (beta agent_ex)))
               (map (\<lambda>x. x + prior_eps cfg_ex) (map2 (+) [ln 2, 0] [ln 2, 0]))
               (priorities agent_ex)"
    and pos: "\<forall>p \<in> set (map (\<lambda>x. x + prior_eps cfg_ex) (map2 (+) [ln 2, 0] [ln 2, 0])). 0 < p"
    by blast+
  from eq have e: "priorities agent_ex_trained
       = update_priorities [0, 1] [2 * ln 2 + 1/1000000, 1/1000000] Map.empty"
    by (simp add: co_ex_fields smp_ex_fields cfg_ex_fields agent_ex_fields)
  from pos have p: "0 < 2 * ln 2 + 1 / (1000000::real)"
    by (simp add: cfg_ex_fields)
  have v: "priorities agent_ex_trained 0 = Some (2 * ln 2 + 1/1000000)"
      "priorities agent_ex_trained 1 = Some (1/1000000)"
    unfolding e by (simp_all add: update_priorities_def)
  from update_model_ex h4 e v p show ?thesis by blast
qed

text \<open>
  Claim C8. \<^verbatim>\<open>metrics\<close> returns nothing and resets nothing on every episode number
  divisible by 10, and reports (and resets the accumulators) on episode 1; the reported
  \<open>w_mean\<close> is the mean \<open>7/2\<close> of the values of the parameter \<open>w\<close>, not the mean \<open>0\<close>
  of its gradient.
\<close>

theorem metrics_reports_off_the_tenth_episode:
  "metrics s (10 * n) = (None, s)
   \<and> fst (metrics agent_ex_updated 1)
       = Some [''loss_per_batch'' \<mapsto> 3 / 4 * ln 2, ''w_std'' \<mapsto> std [2, 5], ''w_mean'' \<mapsto> 7 / 2]
   \<and> snd (metrics agent_ex_updated 1) = agent_ex_updated\<lparr>loss_per_batch := 0, episode_step := 0\<rparr>
   \<and> map (\<lambda>(name, p). (name, data p, grad p)) (named_parameters (dqn agent_ex_updated))
       = [(''w'', [2, 5], Some [1 / 2, - 1 / 2])]
   \<and> mean [2, 5] = 7 / 2 \<and> mean [1 / 2, - 1 / 2] = 0"
proof -
  have a: "metrics s (10 * n) = (None, s)"
    by (simp add: metrics_def)
  have b: "fst (metrics agent_ex_updated 1)
       = Some [''loss_per_batch'' \<mapsto> 3 / 4 * ln 2, ''w_std'' \<mapsto> std [2, 5], ''w_mean'' \<mapsto> 7 / 2]"
    by (simp add: metrics_def Let_def grads_of_def agent_ex_updated_def stepped_ex_def
        squeeze_dim_def mean_def)
  have c: "snd (metrics agent_ex_updated 1)
       = agent_ex_updated\<lparr>loss_per_batch := 0, episode_step := 0\<rparr>"
    by (simp add: metrics_def Let_def)
  have d: "map (\<lambda>(name, p). (name, data p, grad p)) (named_parameters (dqn agent_ex_updated))
       = [(''w'', [2, 5], Some [1 / 2, - 1 / 2])]"
    by (simp add: agent_ex_updated_def stepped_ex_def)
  have e: "mean [2, 5] = 7 / 2" "mean [1 / 2, - 1 / 2] = 0"
    by (simp_all add: mean_def)
  from a b c d e show ?thesis by blast
qed

theorem metrics_reports_off_the_tenth_episode_witness:
  "fst (metrics agent_ex_updated 10) = None
   \<and> fst (metrics agent_ex_updated 20) = None
   \<and> loss_per_batch (snd (metrics agent_ex_updated 10)) = 3 / 4 * ln 2
   \<and> fst (metrics agent_ex_updated 1) \<noteq> None
   \<and> the (fst (metrics agent_ex_updated 1)) ''w_mean'' = Some (7 / 2)"
proof -
  note inst = metrics_reports_off_the_tenth_episode
  from inst[of agent_ex_updated 1] have a: "metrics agent_ex_updated 10 = (None, agent_ex_updated)"
    by simp
  from inst[of agent_ex_updated 2] have b: "metrics agent_ex_updated 20 = (None, agent_ex_updated)"
    by simp
  from inst[of agent_ex_updated 0] have c: "fst (metrics agent_ex_updated 1)
       = Some [''loss_per_batch'' \<mapsto> 3 / 4 * ln 2, ''w_std'' \<mapsto> std [2, 5], ''w_mean'' \<mapsto> 7 / 2]"
    by blast
  have l: "loss_per_batch agent_ex_updated = 3 / 4 * ln 2"
    by (simp add: agent_ex_updated_def)
  show ?thesis unfolding a b c by (simp add: l)
qed

text \<open>
  Claim C9. Constructing the agent with a policy that has no \<^verbatim>\<open>distribution\<close> method
  raises \<^verbatim>\<open>NotImplementedError\<close>; no agent results.
\<close>

theorem init_refuses_policy_without_distribution:
  "distribution pol = None \<Longrightarrow> init cfg pol target0 = Inl NotImplementedError"
  by (simp add: init_def)

theorem init_refuses_policy_without_distribution_witness:
  "distribution (pol_ex\<lparr>distribution := None\<rparr>) = None
   \<and> init cfg_ex (pol_ex\<lparr>distribution := None\<rparr>) target0_ex = Inl NotImplementedError"
proof -
  have h: "distribution (pol_ex\<lparr>distribution := None\<rparr>) = None" by simp
  from init_refuses_policy_without_distribution[OF h, of cfg_ex target0_ex] h
  show ?thesis by simp
qed

text \<open>
  Claim C10. With \<open>buffer_beta_min \<le> buffer_beta_max\<close> and a non-negative decay, \<open>beta\<close>
  equals \<open>buffer_beta_min\<close> in every state reached from construction through any sequence
  of \<^verbatim>\<open>update\<close> calls: the schedule never moves it.
\<close>

theorem beta_stays_at_floor:
  assumes "buffer_beta_min cfg \<le> buffer_beta_max cfg" and "0 \<le> buffer_beta_decay cfg"
    and "init cfg pol target0 = Inr s0"
  shows "\<forall>s \<in> set (updates cfg s0 cs). beta s = buffer_beta_min cfg"
  using updates_beta_floor[OF assms(1,2) init_beta[OF assms(3)]] .

theorem beta_stays_at_floor_witness:
  "buffer_beta_min cfg_ex \<le> buffer_beta_max cfg_ex \<and> 0 \<le> buffer_beta_decay cfg_ex
   \<and> init cfg_ex pol_ex target0_ex = Inr agent_ex
   \<and> agent_ex_updated \<in> set (updates cfg_ex agent_ex [co_ex\<lparr>mem_len := 1\<rparr>, co_ex])
   \<and> beta agent_ex_updated = buffer_beta_min cfg_ex"
proof -
  have h1: "buffer_beta_min cfg_ex \<le> buffer_beta_max cfg_ex"
    and h2: "0 \<le> buffer_beta_decay cfg_ex"
    by (simp_all add: cfg_ex_fields)
  have "update cfg_ex (co_ex\<lparr>mem_len := 1\<rparr>) agent_ex = Inr agent_ex"
    by (simp add: update_def cfg_ex_fields)
  then have run: "agent_ex_updated \<in> set (updates cfg_ex agent_ex [co_ex\<lparr>mem_len := 1\<rparr>, co_ex])"
    by (simp add: update_ex)
  from beta_stays_at_floor[OF h1 h2 init_ex, of "[co_ex\<lparr>mem_len := 1\<rparr>, co_ex]"] run
  have "beta agent_ex_updated = buffer_beta_min cfg_ex" by blast
  with h1 h2 init_ex run show ?thesis by blast
qed

end
